theory Spec2Isabelle
  imports Main "HOL-Library.Word" "HOL-Library.Sublist" "HOL-Library.Char_ord" "HOL-Library.List_Lexorder"
begin

section \<open>Data model of the plugin\<close>

text \<open>
  Go strings are byte sequences; they are modelled as \<^typ>\<open>string\<close>, one \<^typ>\<open>char\<close> per byte.
  A \<open>time.Duration\<close> is a signed 64-bit count of nanoseconds.
\<close>

type_synonym Duration = "64 word"

text \<open>The command-line options, \<open>type Opt struct\<close>.  The fields \<open>Prefix\<close>, \<open>Timeout\<close> and
  \<open>APIKey\<close> carry the suffix \<open>_opt\<close> because \<open>Plugin\<close> has fields of the same names.\<close>

record Opt =
  Version :: bool
  Prefix_opt :: string
  Port :: string
  Host :: string
  Timeout_opt :: Duration
  APIKey_opt :: string

text \<open>\<open>type Plugin struct\<close>.\<close>

record Plugin =
  Prefix :: string
  URL :: string
  Timeout :: Duration
  APIKey :: string

text \<open>The fields of \<open>mp.Metrics\<close> and \<open>mp.Graphs\<close> (go-mackerel-plugin) that the catalog sets.
  A field that a composite literal leaves out has Go's zero value, \<open>false\<close> for the two flags.\<close>

record Metrics =
  Name :: string
  MetricLabel :: string
  Diff :: bool
  Stacked :: bool

record Graphs =
  Label :: string
  Unit :: string
  Metrics :: "Metrics list"

section \<open>MetricKeyPrefix\<close>

text \<open>The method has a pointer receiver and may assign \<open>p.Prefix\<close>: the model returns the
  result together with the plugin after the call.\<close>

definition MetricKeyPrefix :: "Plugin \<Rightarrow> string \<times> Plugin" where
  "MetricKeyPrefix p =
     (let p' = (if Prefix p = [] then p\<lparr>Prefix := ''dnsdist''\<rparr> else p)
      in (Prefix p', p'))"

section \<open>GraphDefinition\<close>

subsection \<open>\<open>strings.Title\<close>\<close>

text \<open>
  \<open>strings.Title\<close> maps the first letter of every word to title case; a word starts after a
  separator, and the scan starts as if a space came before the string.  The model covers
  ASCII: for a byte above \<open>0x7F\<close> Go consults the Unicode tables, the model keeps the byte and
  counts it as part of a word.
\<close>

definition isSeparator :: "char \<Rightarrow> bool" where
  "isSeparator r =
     (if (of_char r :: nat) \<le> 0x7F then
        (if CHR ''0'' \<le> r \<and> r \<le> CHR ''9'' then False
         else if CHR ''a'' \<le> r \<and> r \<le> CHR ''z'' then False
         else if CHR ''A'' \<le> r \<and> r \<le> CHR ''Z'' then False
         else if r = CHR ''_'' then False
         else True)
      else False)"

definition ToTitle :: "char \<Rightarrow> char" where
  "ToTitle r = (if CHR ''a'' \<le> r \<and> r \<le> CHR ''z'' then char_of ((of_char r :: nat) - 32) else r)"

fun Title_from :: "char \<Rightarrow> string \<Rightarrow> string" where
  "Title_from prev [] = []"
| "Title_from prev (r # s) = (if isSeparator prev then ToTitle r else r) # Title_from r s"

definition Title :: "string \<Rightarrow> string" where
  "Title s = Title_from CHR '' '' s"

subsection \<open>The catalog\<close>

text \<open>The eight entries of the map literal, in the order of the source.\<close>

definition GraphDefinition_entries :: "Plugin \<Rightarrow> (string \<times> Graphs) list" where
  "GraphDefinition_entries p =
     (let labelPrefix = Title (Prefix p) in
      [(''acl-drop'',
          \<lparr>Label = labelPrefix @ '': Dropped packets becaused of the ACL'', Unit = ''integer'',
           Metrics = [
             \<lparr>Name = ''acl-drops'', MetricLabel = ''Dropped'', Diff = True, Stacked = False\<rparr>]\<rparr>),
       (''cache'',
          \<lparr>Label = labelPrefix @ '': Packet Cache'', Unit = ''integer'',
           Metrics = [
             \<lparr>Name = ''cache-hits'', MetricLabel = ''Hits'', Diff = True, Stacked = True\<rparr>,
             \<lparr>Name = ''cache-misses'', MetricLabel = ''Misses'', Diff = True, Stacked = True\<rparr>]\<rparr>),
       (''downstream-errors'',
          \<lparr>Label = labelPrefix @ '': Backend errors'', Unit = ''integer'',
           Metrics = [
             \<lparr>Name = ''downstream-send-errors'', MetricLabel = ''Send error'', Diff = True, Stacked = False\<rparr>,
             \<lparr>Name = ''downstream-timeouts'', MetricLabel = ''Timeouts'', Diff = True, Stacked = False\<rparr>]\<rparr>),
       (''latency'',
          \<lparr>Label = labelPrefix @ '': Latency (microseconds)'', Unit = ''integer'',
           Metrics = [
             \<lparr>Name = ''latency-avg1000000'', MetricLabel = ''Latency1000000'', Diff = False, Stacked = False\<rparr>]\<rparr>),
       (''queries'',
          \<lparr>Label = labelPrefix @ '': Queries'', Unit = ''integer'',
           Metrics = [
             \<lparr>Name = ''queries'', MetricLabel = ''Queries'', Diff = True, Stacked = False\<rparr>,
             \<lparr>Name = ''rdqueries'', MetricLabel = ''Query widh rd bit'', Diff = True, Stacked = False\<rparr>]\<rparr>),
       (''responses'',
          \<lparr>Label = labelPrefix @ '': Response'', Unit = ''integer'',
           Metrics = [
             \<lparr>Name = ''responses'', MetricLabel = ''Backend responses'', Diff = True, Stacked = False\<rparr>,
             \<lparr>Name = ''self-answered'', MetricLabel = ''Self answered'', Diff = True, Stacked = False\<rparr>,
             \<lparr>Name = ''servfail-responses'', MetricLabel = ''Backend servfail'', Diff = True, Stacked = False\<rparr>]\<rparr>),
       (''rule'',
          \<lparr>Label = labelPrefix @ '': Returned because of rules'', Unit = ''integer'',
           Metrics = [
             \<lparr>Name = ''rule-drop'', MetricLabel = ''Drop'', Diff = True, Stacked = True\<rparr>,
             \<lparr>Name = ''rule-nxdomain'', MetricLabel = ''Nxdomain'', Diff = True, Stacked = True\<rparr>,
             \<lparr>Name = ''rule-refused'', MetricLabel = ''Refused'', Diff = True, Stacked = True\<rparr>,
             \<lparr>Name = ''rule-servfail'', MetricLabel = ''Servfail'', Diff = True, Stacked = True\<rparr>,
             \<lparr>Name = ''rule-truncated'', MetricLabel = ''Truncated'', Diff = True, Stacked = True\<rparr>]\<rparr>),
       (''fd'',
          \<lparr>Label = labelPrefix @ '': FD usage'', Unit = ''integer'',
           Metrics = [
             \<lparr>Name = ''fd-usage'', MetricLabel = ''usage'', Diff = False, Stacked = False\<rparr>]\<rparr>)])"

text \<open>The Go map that the literal builds: a finite map from graph-key to definition.\<close>

definition GraphDefinition :: "Plugin \<Rightarrow> (string \<rightharpoonup> Graphs)" where
  "GraphDefinition p = map_of (GraphDefinition_entries p)"

text \<open>The columns of the catalog table that fix the schema: name, stacked, diff.\<close>

definition metric_flags :: "Graphs \<Rightarrow> (string \<times> bool \<times> bool) list" where
  "metric_flags g = map (\<lambda>m. (Name m, Stacked m, Diff m)) (Metrics g)"

section \<open>Opt.URL\<close>

subsection \<open>\<open>net.JoinHostPort\<close> and \<open>url.URL.String\<close>\<close>

text \<open>\<open>net.JoinHostPort\<close> takes a host with a colon for a literal IPv6 address and puts it
  in square brackets.\<close>

definition JoinHostPort :: "string \<Rightarrow> string \<Rightarrow> string" where
  "JoinHostPort host port =
     (if CHR '':'' \<in> set host then ''['' @ host @ '']:'' @ port else host @ '':'' @ port)"

text \<open>The two escaping modes that \<open>String\<close> reaches for the URL built by \<open>Opt.URL\<close>.\<close>

datatype encoding = encodePath | encodeHost

definition shouldEscape :: "char \<Rightarrow> encoding \<Rightarrow> bool" where
  "shouldEscape c mode =
     (if (CHR ''a'' \<le> c \<and> c \<le> CHR ''z'') \<or> (CHR ''A'' \<le> c \<and> c \<le> CHR ''Z'')
          \<or> (CHR ''0'' \<le> c \<and> c \<le> CHR ''9'') then False
      else if mode = encodeHost \<and> c \<in> set ''!$&'' \<union> {CHR 0x27} \<union> set ''()*+,;=:[]<>'' \<union> {CHR 0x22}
        then False
      else if c \<in> set ''-_.~'' then False
      else if c \<in> set ''$&+,/:;=?@'' \<and> mode = encodePath then c = CHR ''?''
      else True)"

definition upperhex :: string where
  "upperhex = ''0123456789ABCDEF''"

definition escape_byte :: "char \<Rightarrow> string" where
  "escape_byte c = [CHR ''%'', upperhex ! ((of_char c :: nat) div 16), upperhex ! ((of_char c :: nat) mod 16)]"

definition escape :: "string \<Rightarrow> encoding \<Rightarrow> string" where
  "escape s mode = concat (map (\<lambda>c. if shouldEscape c mode then escape_byte c else [c]) s)"

text \<open>The fields of \<open>url.URL\<close> that \<open>Opt.URL\<close> sets; all others are zero (\<open>Opaque\<close>,
  \<open>RawPath\<close> and \<open>Fragment\<close> empty, \<open>User\<close> nil, \<open>ForceQuery\<close> and \<open>OmitHost\<close> false), and
  \<open>URL_String\<close> is \<open>String\<close> on those branches.\<close>

record url_URL =
  url_Scheme :: string
  url_Host :: string
  url_Path :: string
  url_RawQuery :: string

definition EscapedPath :: "url_URL \<Rightarrow> string" where
  "EscapedPath u = (if url_Path u = ''*'' then ''*'' else escape (url_Path u) encodePath)"

definition URL_String :: "url_URL \<Rightarrow> string" where
  "URL_String u =
     (let buf = (if url_Scheme u \<noteq> [] then url_Scheme u @ '':'' else []);
          buf = (if url_Scheme u \<noteq> [] \<or> url_Host u \<noteq> [] then
                   buf @ (if url_Host u \<noteq> [] \<or> url_Path u \<noteq> [] then ''//'' else [])
                       @ (if url_Host u \<noteq> [] then escape (url_Host u) encodeHost else [])
                 else buf);
          path = EscapedPath u;
          buf = (if path \<noteq> [] \<and> take 1 path \<noteq> ''/'' \<and> url_Host u \<noteq> [] then buf @ ''/'' else buf);
          buf = (if buf = [] \<and> CHR '':'' \<in> set (takeWhile (\<lambda>c. c \<noteq> CHR ''/'') path)
                 then buf @ ''./'' else buf);
          buf = buf @ path
      in if url_RawQuery u \<noteq> [] then buf @ ''?'' @ url_RawQuery u else buf)"

definition Opt_URL :: "Opt \<Rightarrow> string" where
  "Opt_URL o' =
     URL_String \<lparr>url_Scheme = ''http'', url_Host = JoinHostPort (Host o') (Port o'),
                 url_Path = ''/jsonstat'', url_RawQuery = ''command=stats''\<rparr>"

text \<open>The bytes that pass through a URL host unescaped.\<close>

definition host_plain :: "string \<Rightarrow> bool" where
  "host_plain s = (\<forall>c \<in> set s. \<not> shouldEscape c encodeHost)"

section \<open>Opt.GetAPIKey\<close>

subsection \<open>The regular expression\<close>

text \<open>
  \<open>apiKeyRegexp\<close> is \<^verbatim>\<open>setWebserverConfig\(.*\{.*\bapiKey\s*=\s*"(.+?)"\<close>: a sequence of
  literals, greedy stars over a character class, one word boundary and one capturing lazy
  plus over a character class.  \<open>RE\<close> has an item for each of these forms.  Go's regexp
  package returns the match that a backtracking search finds first, and \<open>rmatch\<close> is that
  search.  The pattern is matched on bytes: its literals and class boundaries are ASCII, and
  no byte of a multi-byte UTF-8 sequence is a newline, a quote or a word character.
\<close>

datatype cclass = AnyCharNotNL | PerlSpace

fun in_class :: "cclass \<Rightarrow> char \<Rightarrow> bool" where
  "in_class AnyCharNotNL c = (c \<noteq> CHR 0x0A)"
| "in_class PerlSpace c = (c = CHR 0x09 \<or> c = CHR 0x0A \<or> c = CHR 0x0C \<or> c = CHR 0x0D \<or> c = CHR '' '')"

datatype RE =
    Lit string
  | StarGreedy cclass
  | WordBoundary
  | CapPlusLazy cclass
  | CapMore cclass string

definition is_word_char :: "char \<Rightarrow> bool" where
  "is_word_char c = ((CHR ''0'' \<le> c \<and> c \<le> CHR ''9'') \<or> (CHR ''A'' \<le> c \<and> c \<le> CHR ''Z'')
                      \<or> c = CHR ''_'' \<or> (CHR ''a'' \<le> c \<and> c \<le> CHR ''z''))"

definition word_before :: "char option \<Rightarrow> bool" where
  "word_before prev = (case prev of None \<Rightarrow> False | Some c \<Rightarrow> is_word_char c)"

definition word_after :: "string \<Rightarrow> bool" where
  "word_after s = (case s of [] \<Rightarrow> False | c # _ \<Rightarrow> is_word_char c)"

text \<open>
  \<open>rmatch re prev s cap\<close> matches the items \<open>re\<close> at the start of \<open>s\<close>; \<open>prev\<close> is the byte
  before \<open>s\<close> (for \<open>\b\<close>) and \<open>cap\<close> the text of group 1 so far.  The result is group 1 and the
  unread rest of \<open>s\<close>.  A greedy star first tries one more byte, a lazy plus first tries to
  go on with the pattern; \<open>CapMore c acc\<close> is the lazy plus after it has read the bytes
  \<open>rev acc\<close>.
\<close>

fun rmatch :: "RE list \<Rightarrow> char option \<Rightarrow> string \<Rightarrow> string \<Rightarrow> (string \<times> string) option" where
  "rmatch [] prev s cap = Some (cap, s)"
| "rmatch (Lit l # re) prev s cap =
     (if take (length l) s = l
      then rmatch re (if l = [] then prev else Some (last l)) (drop (length l) s) cap
      else None)"
| "rmatch (WordBoundary # re) prev s cap =
     (if word_before prev \<noteq> word_after s then rmatch re prev s cap else None)"
| "rmatch (StarGreedy c # re) prev [] cap = rmatch re prev [] cap"
| "rmatch (StarGreedy c # re) prev (x # xs) cap =
     (if in_class c x then
        (case rmatch (StarGreedy c # re) (Some x) xs cap of
           Some r \<Rightarrow> Some r
         | None \<Rightarrow> rmatch re prev (x # xs) cap)
      else rmatch re prev (x # xs) cap)"
| "rmatch (CapPlusLazy c # re) prev [] cap = None"
| "rmatch (CapPlusLazy c # re) prev (x # xs) cap =
     (if in_class c x then rmatch (CapMore c [x] # re) (Some x) xs cap else None)"
| "rmatch (CapMore c acc # re) prev [] cap = rmatch re prev [] (rev acc)"
| "rmatch (CapMore c acc # re) prev (x # xs) cap =
     (case rmatch re prev (x # xs) (rev acc) of
        Some r \<Rightarrow> Some r
      | None \<Rightarrow> (if in_class c x then rmatch (CapMore c (x # acc) # re) (Some x) xs cap else None))"

definition apiKeyRegexp :: "RE list" where
  "apiKeyRegexp =
     [Lit ''setWebserverConfig('', StarGreedy AnyCharNotNL, Lit ''{'', StarGreedy AnyCharNotNL,
      WordBoundary, Lit ''apiKey'', StarGreedy PerlSpace, Lit ''='', StarGreedy PerlSpace,
      Lit [CHR 0x22], CapPlusLazy AnyCharNotNL, Lit [CHR 0x22]]"

text \<open>
  \<open>FindAllSubmatch(buf, -1)\<close>: the successive non-overlapping matches, each the leftmost one
  after the end of the match before, each given as the texts of group 0 (the whole match)
  and group 1.  \<open>skip\<close> counts the bytes of \<open>s\<close> that the last match still covers.  (A match of
  the empty string makes Go move on by one byte; this pattern has none.)
\<close>

fun allMatches :: "RE list \<Rightarrow> nat \<Rightarrow> char option \<Rightarrow> string \<Rightarrow> string list list" where
  "allMatches re skip prev [] =
     (if skip = 0 then (case rmatch re prev [] [] of Some (g1, rest) \<Rightarrow> [[[], g1]] | None \<Rightarrow> [])
      else [])"
| "allMatches re skip prev (x # xs) =
     (if 0 < skip then allMatches re (skip - 1) (Some x) xs
      else (case rmatch re prev (x # xs) [] of
              Some (g1, rest) \<Rightarrow>
                (let n = length (x # xs) - length rest
                 in [take n (x # xs), g1] # allMatches re (n - 1) (Some x) xs)
            | None \<Rightarrow> allMatches re 0 (Some x) xs))"

definition FindAllSubmatch :: "RE list \<Rightarrow> string \<Rightarrow> string list list" where
  "FindAllSubmatch re b = allMatches re 0 None b"

subsection \<open>The method\<close>

text \<open>What the plugin's calls into the operating system and the network can fail with.\<close>

datatype error = ReadError | RequestError | TransportError | LocationError | DecodeError

text \<open>The file system is a map from path to content; a path outside its domain cannot be
  read.\<close>

definition ReadFile :: "(string \<rightharpoonup> string) \<Rightarrow> string \<Rightarrow> error + string" where
  "ReadFile fs name = (case fs name of None \<Rightarrow> Inl ReadError | Some buf \<Rightarrow> Inr buf)"

definition GetAPIKey :: "Opt \<Rightarrow> (string \<rightharpoonup> string) \<Rightarrow> string" where
  "GetAPIKey o' fs =
     (if APIKey_opt o' \<noteq> [] then APIKey_opt o'
      else (case ReadFile fs ''/etc/dnsdist/dnsdist.conf'' of
              Inl err \<Rightarrow> []
            | Inr buf \<Rightarrow>
                (let res = FindAllSubmatch apiKeyRegexp buf
                 in if length res < 1 then [] else res ! 0 ! 1)))"

text \<open>The lines of a text, split at the newline byte.\<close>

fun lines_of :: "string \<Rightarrow> string list" where
  "lines_of [] = [[]]"
| "lines_of (c # s) =
     (if c = CHR 0x0A then [] # lines_of s
      else (case lines_of s of l # ls \<Rightarrow> (c # l) # ls | [] \<Rightarrow> [[c]]))"


(* ==== properties ==== *)

section \<open>Properties of the catalog and the prefix\<close>


text \<open>
  Claim C10.  \<open>MetricKeyPrefix\<close> never returns the empty string: it returns \<open>dnsdist\<close> when
  the stored prefix is empty and the stored prefix otherwise.  After one call the \<open>Prefix\<close>
  field is non-empty, and however many calls have been made since, the next call returns
  the value of the first and leaves the plugin as the first call left it.
\<close>

theorem MetricKeyPrefix_nonempty_idempotent:
  "fst (MetricKeyPrefix p) \<noteq> []
   \<and> fst (MetricKeyPrefix p) = (if Prefix p = [] then ''dnsdist'' else Prefix p)
   \<and> Prefix (snd (MetricKeyPrefix p)) \<noteq> []
   \<and> MetricKeyPrefix (((snd \<circ> MetricKeyPrefix) ^^ Suc n) p)
       = (fst (MetricKeyPrefix p), snd (MetricKeyPrefix p))"
proof -
  have again: "MetricKeyPrefix (snd (MetricKeyPrefix q)) = MetricKeyPrefix q" for q
    by (simp add: MetricKeyPrefix_def Let_def)
  have iter: "((snd \<circ> MetricKeyPrefix) ^^ Suc n) p = snd (MetricKeyPrefix p)"
  proof (induction n)
    case 0
    show ?case by simp
  next
    case (Suc n)
    have "((snd \<circ> MetricKeyPrefix) ^^ Suc (Suc n)) p
            = snd (MetricKeyPrefix (((snd \<circ> MetricKeyPrefix) ^^ Suc n) p))"
      by simp
    also have "\<dots> = snd (MetricKeyPrefix (snd (MetricKeyPrefix p)))"
      by (simp only: Suc.IH)
    also have "\<dots> = snd (MetricKeyPrefix p)"
      by (simp only: again)
    finally show ?case .
  qed
  have "MetricKeyPrefix (((snd \<circ> MetricKeyPrefix) ^^ Suc n) p) = MetricKeyPrefix p"
    by (simp only: iter again)
  then show ?thesis
    by (simp add: MetricKeyPrefix_def Let_def)
qed

theorem MetricKeyPrefix_nonempty_idempotent_witness:
  "fst (MetricKeyPrefix \<lparr>Prefix = [], URL = [], Timeout = 0, APIKey = []\<rparr>) = ''dnsdist''
   \<and> MetricKeyPrefix (((snd \<circ> MetricKeyPrefix) ^^ Suc 2) \<lparr>Prefix = [], URL = [], Timeout = 0, APIKey = []\<rparr>)
       = (''dnsdist'', \<lparr>Prefix = ''dnsdist'', URL = [], Timeout = 0, APIKey = []\<rparr>)"
  using MetricKeyPrefix_nonempty_idempotent [of "\<lparr>Prefix = [], URL = [], Timeout = 0, APIKey = []\<rparr>" 2]
  by (simp add: MetricKeyPrefix_def Let_def)

text \<open>
  Claim C4.  \<open>GraphDefinition\<close> returns exactly the eight graph-keys of the catalog table, and
  under each key the metrics in the table's order with the table's names, stacked flags and
  diff flags (each triple is name, stacked, diff).
\<close>

theorem GraphDefinition_catalog:
  "dom (GraphDefinition p) = {''acl-drop'', ''cache'', ''downstream-errors'', ''latency'',
                              ''queries'', ''responses'', ''rule'', ''fd''}
   \<and> map_option metric_flags (GraphDefinition p ''acl-drop'') = Some [(''acl-drops'', False, True)]
   \<and> map_option metric_flags (GraphDefinition p ''cache'')
       = Some [(''cache-hits'', True, True), (''cache-misses'', True, True)]
   \<and> map_option metric_flags (GraphDefinition p ''downstream-errors'')
       = Some [(''downstream-send-errors'', False, True), (''downstream-timeouts'', False, True)]
   \<and> map_option metric_flags (GraphDefinition p ''latency'')
       = Some [(''latency-avg1000000'', False, False)]
   \<and> map_option metric_flags (GraphDefinition p ''queries'')
       = Some [(''queries'', False, True), (''rdqueries'', False, True)]
   \<and> map_option metric_flags (GraphDefinition p ''responses'')
       = Some [(''responses'', False, True), (''self-answered'', False, True),
               (''servfail-responses'', False, True)]
   \<and> map_option metric_flags (GraphDefinition p ''rule'')
       = Some [(''rule-drop'', True, True), (''rule-nxdomain'', True, True),
               (''rule-refused'', True, True), (''rule-servfail'', True, True),
               (''rule-truncated'', True, True)]
   \<and> map_option metric_flags (GraphDefinition p ''fd'') = Some [(''fd-usage'', False, False)]"
proof -
  have keys: "dom (GraphDefinition p) = {''acl-drop'', ''cache'', ''downstream-errors'', ''latency'',
                              ''queries'', ''responses'', ''rule'', ''fd''}"
    by (simp add: GraphDefinition_def GraphDefinition_entries_def dom_map_of_conv_image_fst Let_def)
  have rows:
    "map_option metric_flags (GraphDefinition p ''acl-drop'') = Some [(''acl-drops'', False, True)]"
    "map_option metric_flags (GraphDefinition p ''cache'')
       = Some [(''cache-hits'', True, True), (''cache-misses'', True, True)]"
    "map_option metric_flags (GraphDefinition p ''downstream-errors'')
       = Some [(''downstream-send-errors'', False, True), (''downstream-timeouts'', False, True)]"
    "map_option metric_flags (GraphDefinition p ''latency'')
       = Some [(''latency-avg1000000'', False, False)]"
    "map_option metric_flags (GraphDefinition p ''queries'')
       = Some [(''queries'', False, True), (''rdqueries'', False, True)]"
    "map_option metric_flags (GraphDefinition p ''responses'')
       = Some [(''responses'', False, True), (''self-answered'', False, True),
               (''servfail-responses'', False, True)]"
    "map_option metric_flags (GraphDefinition p ''rule'')
       = Some [(''rule-drop'', True, True), (''rule-nxdomain'', True, True),
               (''rule-refused'', True, True), (''rule-servfail'', True, True),
               (''rule-truncated'', True, True)]"
    "map_option metric_flags (GraphDefinition p ''fd'') = Some [(''fd-usage'', False, False)]"
    by (simp_all add: GraphDefinition_def GraphDefinition_entries_def Let_def metric_flags_def)
  from keys rows show ?thesis by (simp only: simp_thms)
qed

text \<open>
  Claim C8.  In the \<open>queries\<close> graph the metric \<open>rdqueries\<close> is non-stacked with diff enabled,
  but the display label the code gives it is \<open>Query widh rd bit\<close>, not the
  \<open>Query with rd bit\<close> of the catalog table.
\<close>

theorem GraphDefinition_rdqueries_label:
  "map_option (\<lambda>g. filter (\<lambda>m. Name m = ''rdqueries'') (Metrics g)) (GraphDefinition p ''queries'')
     = Some [\<lparr>Name = ''rdqueries'', MetricLabel = ''Query widh rd bit'', Diff = True, Stacked = False\<rparr>]
   \<and> ''Query widh rd bit'' \<noteq> ''Query with rd bit''"
  by (simp add: GraphDefinition_def GraphDefinition_entries_def Let_def)



section \<open>Properties of the URL\<close>

lemma escape_append: "escape (a @ b) mode = escape a mode @ escape b mode"
  by (simp add: escape_def)

lemma escape_plain: "host_plain s \<Longrightarrow> escape s encodeHost = s"
  unfolding host_plain_def escape_def by (induction s) auto

lemma host_plain_append: "host_plain (a @ b) = (host_plain a \<and> host_plain b)"
  by (auto simp: host_plain_def)

lemma host_plain_Cons: "host_plain (c # s) = (\<not> shouldEscape c encodeHost \<and> host_plain s)"
  by (simp add: host_plain_def)

lemma host_punct: "\<not> shouldEscape CHR '':'' encodeHost" "\<not> shouldEscape CHR ''['' encodeHost"
  "\<not> shouldEscape CHR '']'' encodeHost"
  by (simp_all add: shouldEscape_def)

lemma escape_path_jsonstat: "escape ''/jsonstat'' encodePath = ''/jsonstat''"
  by (simp add: escape_def shouldEscape_def)

lemma Opt_URL_escaped:
  "Opt_URL o' = ''http://'' @ escape (JoinHostPort (Host o') (Port o')) encodeHost
                 @ ''/jsonstat?command=stats''"
  by (simp add: Opt_URL_def URL_String_def EscapedPath_def escape_path_jsonstat JoinHostPort_def Let_def)

text \<open>
  Claim C3, as stated, at the IPv6 loopback address: the host is not substituted verbatim,
  \<open>net.JoinHostPort\<close> puts it in square brackets.
\<close>

theorem Opt_URL_ipv6_counterexample:
  "Opt_URL \<lparr>Version = False, Prefix_opt = ''dnsdist'', Port = ''8083'', Host = ''::1'',
            Timeout_opt = 0, APIKey_opt = []\<rparr>
     = ''http://[::1]:8083/jsonstat?command=stats''
   \<and> Opt_URL \<lparr>Version = False, Prefix_opt = ''dnsdist'', Port = ''8083'', Host = ''::1'',
            Timeout_opt = 0, APIKey_opt = []\<rparr>
     \<noteq> ''http://'' @ ''::1'' @ '':'' @ ''8083'' @ ''/jsonstat?command=stats''"
  by (simp add: Opt_URL_escaped JoinHostPort_def escape_def shouldEscape_def)

text \<open>
  Claim C3, amended.  When host and port consist of bytes that a URL host carries unescaped:
  for a host without a colon the URL is exactly \<open>http://<host>:<port>/jsonstat?command=stats\<close>;
  for a host with a colon (a literal IPv6 address) it is
  \<open>http://[<host>]:<port>/jsonstat?command=stats\<close>.
\<close>

theorem Opt_URL_form:
  "(CHR '':'' \<notin> set (Host o') \<and> host_plain (Host o') \<and> host_plain (Port o') \<longrightarrow>
      Opt_URL o' = ''http://'' @ Host o' @ '':'' @ Port o' @ ''/jsonstat?command=stats'')
   \<and> (CHR '':'' \<in> set (Host o') \<and> host_plain (Host o') \<and> host_plain (Port o') \<longrightarrow>
      Opt_URL o' = ''http://['' @ Host o' @ '']:'' @ Port o' @ ''/jsonstat?command=stats'')"
proof -
  have "escape (Host o' @ '':'' @ Port o') encodeHost = Host o' @ '':'' @ Port o'"
    if "host_plain (Host o')" "host_plain (Port o')"
    using that by (intro escape_plain) (simp add: host_plain_append host_plain_Cons host_punct)
  moreover have "escape (''['' @ Host o' @ '']:'' @ Port o') encodeHost = ''['' @ Host o' @ '']:'' @ Port o'"
    if "host_plain (Host o')" "host_plain (Port o')"
    using that by (intro escape_plain) (simp add: host_plain_append host_plain_Cons host_punct)
  ultimately show ?thesis
    by (simp add: Opt_URL_escaped JoinHostPort_def)
qed

theorem Opt_URL_form_witness:
  "CHR '':'' \<notin> set ''127.0.0.1'' \<and> host_plain ''127.0.0.1'' \<and> host_plain ''8083''
   \<and> Opt_URL \<lparr>Version = False, Prefix_opt = ''dnsdist'', Port = ''8083'', Host = ''127.0.0.1'',
              Timeout_opt = 30000000000, APIKey_opt = []\<rparr>
       = ''http://127.0.0.1:8083/jsonstat?command=stats''
   \<and> CHR '':'' \<in> set ''fe80::1'' \<and> host_plain ''fe80::1''
   \<and> Opt_URL \<lparr>Version = False, Prefix_opt = ''dnsdist'', Port = ''8083'', Host = ''fe80::1'',
              Timeout_opt = 30000000000, APIKey_opt = []\<rparr>
       = ''http://[fe80::1]:8083/jsonstat?command=stats''"
proof -
  have h: "host_plain ''127.0.0.1''" "host_plain ''8083''" "host_plain ''fe80::1''"
    by (simp_all add: host_plain_def shouldEscape_def)
  show ?thesis
    using h
      Opt_URL_form [of "\<lparr>Version = False, Prefix_opt = ''dnsdist'', Port = ''8083'', Host = ''127.0.0.1'',
              Timeout_opt = 30000000000, APIKey_opt = []\<rparr>"]
      Opt_URL_form [of "\<lparr>Version = False, Prefix_opt = ''dnsdist'', Port = ''8083'', Host = ''fe80::1'',
              Timeout_opt = 30000000000, APIKey_opt = []\<rparr>"]
    by simp
qed

end
